theory Spec2Isabelle
  imports Main
begin

unbundle bit_operations_syntax

section \<open>The PPS watcher thread of gpsd (ppsthread.c)\<close>

text \<open>
  A shallow embedding of \<^verbatim>\<open>src/ppsthread.c\<close>, built as for Linux with
  \<^verbatim>\<open>PPS_ENABLE\<close>, \<^verbatim>\<open>TIOCMIWAIT\<close> and \<^verbatim>\<open>HAVE_SYS_TIMEPPS_H\<close> defined
  (the build in which both the plain PPS and the kernel PPS code are compiled).

  The fields \<^verbatim>\<open>tv_sec\<close> (\<^verbatim>\<open>time_t\<close>) and \<^verbatim>\<open>tv_nsec\<close> (\<^verbatim>\<open>long\<close>) are
  mathematical integers here: overflow of a signed C integer is undefined behaviour, so
  the model describes the executions of the code that C defines; the theorems about
  \<^verbatim>\<open>TS_NORM\<close> say so in their hypotheses, which keep \<^verbatim>\<open>tv_sec\<close> off the two ends of
  a 64-bit \<^verbatim>\<open>time_t\<close>. The one conversion that
  narrows a value in every run, the assignment of a \<^verbatim>\<open>long long\<close> to the
  \<^verbatim>\<open>int\<close> variables \<^verbatim>\<open>cycle\<close> and \<^verbatim>\<open>duration\<close>, is written out (\<open>to_int\<close>).
\<close>

subsection \<open>Timespec arithmetic\<close>

record timespec =
  tv_sec :: int
  tv_nsec :: int

text \<open>\<^verbatim>\<open>TS_NORM\<close>, lines 97-123: at most a one is borrowed or carried.\<close>

definition TS_NORM :: "timespec \<Rightarrow> timespec" where
  "TS_NORM ts =
    (if 1 \<le> tv_sec ts \<or> (0 = tv_sec ts \<and> 0 \<le> tv_nsec ts) then
       \<comment> \<open>result is positive\<close>
       (if 1000000000 \<le> tv_nsec ts then
          \<lparr>tv_sec = tv_sec ts + 1, tv_nsec = tv_nsec ts - 1000000000\<rparr>
        else if 0 > tv_nsec ts then
          \<lparr>tv_sec = tv_sec ts - 1, tv_nsec = tv_nsec ts + 1000000000\<rparr>
        else ts)
     else
       \<comment> \<open>result is negative\<close>
       (if - 1000000000 \<ge> tv_nsec ts then
          \<lparr>tv_sec = tv_sec ts - 1, tv_nsec = tv_nsec ts + 1000000000\<rparr>
        else if 0 < tv_nsec ts then
          \<lparr>tv_sec = tv_sec ts + 1, tv_nsec = tv_nsec ts - 1000000000\<rparr>
        else ts))"

text \<open>\<^verbatim>\<open>TS_SUB(r, ts1, ts2)\<close>, lines 127-132: field-wise difference, then \<^verbatim>\<open>TS_NORM\<close>.\<close>

definition TS_SUB :: "timespec \<Rightarrow> timespec \<Rightarrow> timespec" where
  "TS_SUB ts1 ts2 =
     TS_NORM \<lparr>tv_sec = tv_sec ts1 - tv_sec ts2, tv_nsec = tv_nsec ts1 - tv_nsec ts2\<rparr>"

text \<open>
  The sign rules the comment above \<^verbatim>\<open>TS_NORM\<close> asks for: a positive \<^verbatim>\<open>tv_sec\<close> goes
  with \<open>0 \<le> tv_nsec < 10\<^sup>9\<close>, a negative one with \<open>-10\<^sup>9 < tv_nsec \<le> 0\<close>, and a zero
  \<^verbatim>\<open>tv_sec\<close> leaves the sign of \<^verbatim>\<open>tv_nsec\<close> free.
\<close>

definition sign_rules :: "timespec \<Rightarrow> bool" where
  "sign_rules ts =
     ((if 0 < tv_sec ts then 0 \<le> tv_nsec ts \<and> tv_nsec ts < 1000000000 else True) \<and>
      (if tv_sec ts < 0 then - 1000000000 < tv_nsec ts \<and> tv_nsec ts \<le> 0 else True))"

text \<open>
  The inputs with \<open>|tv_nsec| < 2 * 10\<^sup>9\<close> on which one borrow or carry does not suffice:
  \<^verbatim>\<open>tv_nsec\<close> opposes the sign of \<^verbatim>\<open>tv_sec\<close> by more than a second, and \<^verbatim>\<open>tv_sec\<close>
  is two seconds or more away from zero.
\<close>

definition needs_two_steps :: "timespec \<Rightarrow> bool" where
  "needs_two_steps ts =
     ((2 \<le> tv_sec ts \<and> tv_nsec ts < - 1000000000) \<or>
      (tv_sec ts \<le> - 2 \<and> 1000000000 < tv_nsec ts))"

text \<open>
  A normalized timespec: the sign rules, and less than a second of nanoseconds (which the
  rules leave open when \<^verbatim>\<open>tv_sec\<close> is zero).
\<close>

definition normalized :: "timespec \<Rightarrow> bool" where
  "normalized ts = (sign_rules ts \<and> \<bar>tv_nsec ts\<bar> < 1000000000)"

subsection \<open>Differences in microseconds\<close>

text \<open>
  Modelled from the spec: the macro \<^verbatim>\<open>timespec_diff_ns\<close> of \<^verbatim>\<open>timespec_str.h\<close>, a header
  that is not among the source files. Section 4.1 of the specification gives it as
  \<open>diff_ns(a, b) = (a.sec - b.sec) * 10\<^sup>9 + (a.nsec - b.nsec)\<close>.
\<close>

definition timespec_diff_ns :: "timespec \<Rightarrow> timespec \<Rightarrow> int" where
  "timespec_diff_ns x y = (tv_sec x - tv_sec y) * 1000000000 + (tv_nsec x - tv_nsec y)"

text \<open>The division of C, which truncates towards zero.\<close>

definition c_div :: "int \<Rightarrow> int \<Rightarrow> int" where
  "c_div a b = (if (a < 0) = (b < 0) then \<bar>a\<bar> div \<bar>b\<bar> else - (\<bar>a\<bar> div \<bar>b\<bar>))"

text \<open>
  The conversion of a \<^verbatim>\<open>long long\<close> to the 32-bit \<^verbatim>\<open>int\<close> of the variables
  \<^verbatim>\<open>cycle\<close>, \<^verbatim>\<open>duration\<close>, \<^verbatim>\<open>cycle_kpps\<close> and \<^verbatim>\<open>duration_kpps\<close>: the value is
  reduced modulo \<open>2\<^sup>3\<^sup>2\<close> into the signed range, as gcc and clang define it.
\<close>

definition to_int :: "int \<Rightarrow> int" where
  "to_int x = (x + 2147483648) mod 4294967296 - 2147483648"

text \<open>\<^verbatim>\<open>timespec_diff_ns(x, y) / 1000\<close> stored in an \<^verbatim>\<open>int\<close> (lines 522-523, 540-541).\<close>

definition diff_usec :: "timespec \<Rightarrow> timespec \<Rightarrow> int" where
  "diff_usec x y = to_int (c_div (timespec_diff_ns x y) 1000)"

subsection \<open>The shared context, the hooks and the worker's variables\<close>

record timedelta_t =
  real :: timespec
  clock :: timespec

text \<open>
  \<^verbatim>\<open>struct pps_thread_t\<close>, as far as the file uses it. A hook is a function pointer: the
  report hook is \<open>None\<close> when \<^verbatim>\<open>NULL\<close> and otherwise maps the time pair to the tag it
  returns; the hooks that return nothing are present or absent. The log hook is always set.
\<close>

record pps_thread_t =
  devicefd :: int
  devicename :: string
  kernelpps_handle :: int
  report_hook :: "(timedelta_t \<Rightarrow> string) option"
  pps_hook :: bool
  wrap_hook :: bool
  fixin_real :: timespec
  fixin_clock :: timespec
  ppsout_last :: timedelta_t
  ppsout_count :: int

datatype level = THREAD_ERROR | THREAD_WARN | THREAD_INF | THREAD_PROG | THREAD_RAW

text \<open>
  What the thread does to the outside, in the order it does it: the calls of the hooks and
  the system calls with an effect. A log call carries its level and its format string
  (without the final newline).
\<close>

datatype event =
    Log_hook level string
  | Report_hook timedelta_t
  | Pps_hook timedelta_t
  | Wrap_hook
  | Sleep int
  | Set_line_discipline int
  | Open_rdwr string
  | Time_pps_create int
  | Time_pps_destroy int

text \<open>The variables of \<^verbatim>\<open>gpsd_ppsmonitor\<close> that live across iterations (lines 319-340).\<close>

record locals =
  last_second_used :: int
  unchanged :: int
  state_last :: int
  pulse :: "timespec list"
  edge_kpps :: int
  pulse_kpps :: "timespec list"

definition locals_init :: locals where
  "locals_init =
     \<lparr>last_second_used = 0, unchanged = 0, state_last = 0,
      pulse = [\<lparr>tv_sec = 0, tv_nsec = 0\<rparr>, \<lparr>tv_sec = 0, tv_nsec = 0\<rparr>],
      edge_kpps = 0,
      pulse_kpps = [\<lparr>tv_sec = 0, tv_nsec = 0\<rparr>, \<lparr>tv_sec = 0, tv_nsec = 0\<rparr>]\<rparr>"

text \<open>
  What the system answers during one iteration: the return values of the two ioctls, of
  \<^verbatim>\<open>clock_gettime\<close>, of the four mutex operations and of \<^verbatim>\<open>time_pps_fetch\<close>, the
  clock reading, the modem lines and the two kernel timestamps.
\<close>

record wakeup =
  miwait_rc :: int
  lock_rc :: int
  unlock_rc :: int
  gettime_rc :: int
  gettime_ts :: timespec
  mget_rc :: int
  modem_lines :: int
  fetch_rc :: int
  assert_timestamp :: timespec
  clear_timestamp :: timespec
  publish_lock_rc :: int
  publish_unlock_rc :: int

text \<open>How one iteration of the loop ended.\<close>

datatype outcome =
    Wait_failed
  | Clock_failed
  | Lines_failed
  | No_fix
  | Strange
  | Edge_rejected string
  | Not_published string
  | Published timedelta_t

definition is_break :: "outcome \<Rightarrow> bool" where
  "is_break oc = (oc = Wait_failed \<or> oc = Clock_failed \<or> oc = Lines_failed)"

subsection \<open>The loop body\<close>

text \<open>The logging of a failed mutex operation (lines 390-396, 401-407, 744-750, 757-763).\<close>

definition mutex_log :: "int \<Rightarrow> string \<Rightarrow> event list" where
  "mutex_log pthread_err fmt = (if 0 \<noteq> pthread_err then [Log_hook THREAD_ERROR fmt] else [])"

text \<open>
  Lines 375-433, the time critical section: the wait for an edge, the copy of the fix
  under the mutex, the clock and the modem lines. \<open>Inl\<close> is a \<^verbatim>\<open>break\<close>.
\<close>

definition wait_for_edge :: "wakeup \<Rightarrow> (outcome \<times> event list) + event list" where
  "wait_for_edge w =
    (if miwait_rc w \<noteq> 0 then
       Inl (Wait_failed,
            [Log_hook THREAD_WARN ''PPS ioctl(TIOCMIWAIT) on %s failed: %d %.40s''])
     else
       (let ev = mutex_log (lock_rc w) ''PPS: pthread_mutex_lock() : %s'' @
                 mutex_log (unlock_rc w) ''PPS: pthread_mutex_unlock() : %s''
        in if 0 > gettime_rc w then
             Inl (Clock_failed, ev @ [Log_hook THREAD_ERROR ''PPS clock_gettime() failed''])
           else if mget_rc w \<noteq> 0 then
             Inl (Lines_failed,
                  ev @ [Log_hook THREAD_ERROR ''PPS ioctl(TIOCMGET) on %s failed''])
           else
             Inr (ev @ [Log_hook THREAD_PROG ''PPS ioctl(TIOCMIWAIT) on %s succeeded''])))"

text \<open>Lines 489-501: the newer of the two kernel timestamps and its polarity.\<close>

definition last_edge :: "timespec \<Rightarrow> timespec \<Rightarrow> int \<times> timespec" where
  "last_edge a c =
    (if tv_sec a > tv_sec c then (1, a)
     else if tv_sec a < tv_sec c then (0, c)
     else if tv_nsec a > tv_nsec c then (1, a)
     else (0, c))"

text \<open>
  Lines 456-535, the kernel PPS part: \<open>(ok_kpps, edge_kpps, pulse_kpps, events)\<close>.
  An index into \<^verbatim>\<open>pulse_kpps\<close> is 0 or 1.
\<close>

definition kpps_fetch ::
  "pps_thread_t \<Rightarrow> locals \<Rightarrow> wakeup \<Rightarrow> bool \<times> int \<times> timespec list \<times> event list" where
  "kpps_fetch c l w =
    (if 0 \<le> kernelpps_handle c then
       (if 0 > fetch_rc w then
          (False, edge_kpps l, pulse_kpps l, [Log_hook THREAD_ERROR ''KPPS kernel PPS failed''])
        else
          (let (e, ts_kpps) = last_edge (assert_timestamp w) (clear_timestamp w);
               cycle_kpps = diff_usec ts_kpps (pulse_kpps l ! nat e);
               duration_kpps = diff_usec ts_kpps (pulse_kpps l ! (if e = 0 then 1 else 0))
           in (990000 < cycle_kpps \<and> 1010000 > cycle_kpps, e,
               (pulse_kpps l)[nat e := ts_kpps],
               [Log_hook THREAD_PROG
                  ''KPPS assert %s, sequence: %ld - clear  %s, sequence: %ld'',
                Log_hook THREAD_PROG ''KPPS data: using %s'',
                Log_hook THREAD_PROG ''KPPS cycle: %7d uSec, duration: %7d uSec @ %s''])))
     else (False, edge_kpps l, pulse_kpps l, []))"

text \<open>
  Lines 543-563, a wakeup that may have left the lines as they were:
  \<open>(duration, unchanged, events)\<close>.
\<close>

definition check_unchanged ::
  "int \<Rightarrow> int \<Rightarrow> int \<Rightarrow> int \<Rightarrow> int \<Rightarrow> int \<times> int \<times> event list" where
  "check_unchanged state st_last cycle duration unch =
    (if state = st_last then
       (if 999000 < cycle \<and> 1001000 > cycle then
          (0, 0, [Log_hook THREAD_RAW ''PPS pps-detect on %s invisible pulse''])
        else if unch + 1 = 10 then
          (duration, 1,
           [Log_hook THREAD_WARN
              ''PPS TIOCMIWAIT returns unchanged state, ppsmonitor sleeps 10'',
            Sleep 10])
        else (duration, unch + 1, []))
     else
       (duration, 0, [Log_hook THREAD_RAW ''PPS pps-detect on %s changed to %d'']))"

text \<open>Lines 601-658, the classification of the edge: \<open>(ok, log)\<close>.\<close>

definition classify :: "int \<Rightarrow> int \<Rightarrow> int \<Rightarrow> bool \<times> string" where
  "classify cycle duration edge =
    (if 0 > cycle then (False, ''Rejecting negative cycle'')
     else if 199000 > cycle then (False, ''Too short for 5Hz'')
     else if 201000 > cycle then
       (if 100000 > duration then (True, ''5Hz PPS pulse'') else (False, ''Unknown error''))
     else if 900000 > cycle then (False, ''Too long for 5Hz, too short for 1Hz'')
     else if 1100000 > cycle then
       (if 0 = duration then (True, ''invisible pulse'')
        else if 499000 > duration then (False, ''1Hz trailing edge'')
        else if 501000 > duration then
          (if edge = 1 then (True, ''square'') else (False, ''Unknown error''))
        else (True, ''1Hz leading edge''))
     else if 1999000 > cycle then (False, ''Too long for 1Hz, too short for 2Hz'')
     else if 2001000 > cycle then
       (if 999000 > duration then (False, ''0.5 Hz square too short duration'')
        else if 1001000 > duration then (True, ''0.5 Hz square wave'')
        else (False, ''0.5 Hz square too long duration''))
     else (False, ''Too long for 0.5Hz''))"

text \<open>Lines 660-664: a second that was used already is not used again.\<close>

definition dedup :: "int \<Rightarrow> int \<Rightarrow> bool \<times> string \<Rightarrow> bool \<times> string" where
  "dedup last_used fix_sec r =
    (if fst r \<and> last_used \<ge> fix_sec then (False, ''this second already handled'') else r)"

text \<open>Lines 722-734: the test of the delay between the fix and the edge.\<close>

datatype delay_verdict = Clock_went_backwards | Timestamp_out_of_range | Delay_accepted

definition check_delay :: "timespec \<Rightarrow> delay_verdict" where
  "check_delay delay =
    (if 0 > tv_sec delay \<or> 0 > tv_nsec delay then Clock_went_backwards
     else if 2 < tv_sec delay \<or> (1 = tv_sec delay \<and> 100000000 > tv_nsec delay) then
       Timestamp_out_of_range
     else Delay_accepted)"

text \<open>
  Lines 666-783, an edge that was accepted: the choice of the timestamp, the time the
  pulse stands for, the two sanity checks and the publication. \<^verbatim>\<open>pi\<close> is read only
  when \<^verbatim>\<open>ok_kpps\<close> holds, that is after \<^verbatim>\<open>time_pps_fetch\<close> has filled it in this
  iteration, so the timestamps are the wakeup's.
\<close>

definition accept_edge ::
  "pps_thread_t \<Rightarrow> locals \<Rightarrow> wakeup \<Rightarrow> bool \<Rightarrow> pps_thread_t \<times> locals \<times> event list \<times> outcome" where
  "accept_edge c l w ok_kpps =
    (let use_kpps = (0 \<le> kernelpps_handle c \<and> ok_kpps);
         clock_ts =
           (if use_kpps then
              (if edge_kpps l \<noteq> 0 then assert_timestamp w else clear_timestamp w)
            else gettime_ts w);
         ev0 = [Log_hook THREAD_RAW ''PPS edge accepted %.100s''] @
               (if use_kpps then [Log_hook THREAD_RAW ''KPPS using edge %d''] else []);
         ppstimes = \<lparr>real = \<lparr>tv_sec = tv_sec (fixin_real c) + 1, tv_nsec = 0\<rparr>,
                     clock = clock_ts\<rparr>;
         delay = TS_SUB (clock ppstimes) (fixin_clock c);
         ev_last = [Log_hook THREAD_PROG ''PPS edge %.20s @ %s offset %.20s'']
     in case check_delay delay of
          Clock_went_backwards \<Rightarrow>
            (c, l,
             ev0 @ [Log_hook THREAD_RAW ''PPS: system clock went backwards: %.20s''] @ ev_last,
             Not_published ''system clock went backwards'')
        | Timestamp_out_of_range \<Rightarrow>
            (c, l,
             ev0 @ [Log_hook THREAD_RAW ''PPS: no current GPS seconds: %.20s''] @ ev_last,
             Not_published ''timestamp out of range'')
        | Delay_accepted \<Rightarrow>
            (c\<lparr>ppsout_last := ppstimes, ppsout_count := ppsout_count c + 1\<rparr>,
             l\<lparr>last_second_used := tv_sec (fixin_real c)\<rparr>,
             ev0 @
             (case report_hook c of Some f \<Rightarrow> [Report_hook ppstimes] | None \<Rightarrow> []) @
             (if pps_hook c then [Pps_hook ppstimes] else []) @
             mutex_log (publish_lock_rc w) ''PPS: pthread_mutex_lock() : %s'' @
             mutex_log (publish_unlock_rc w) ''PPS: pthread_mutex_unlock() : %s'' @
             [Log_hook THREAD_INF ''PPS hooks called with %.20s clock: %s real: %s''] @
             ev_last,
             Published ppstimes))"

text \<open>
  Lines 447-448 and 540-541: the masked modem lines, the polarity of the edge (1 is an
  assert edge, 0 a clear edge) and the distances, in microseconds, to the last edge of the
  same polarity and to the last edge of the other one. \<open>tioc\<close> is \<^verbatim>\<open>PPS_LINE_TIOC\<close>,
  the modem lines watched, whose bits come from a system header.
\<close>

definition pps_state :: "int \<Rightarrow> wakeup \<Rightarrow> int" where
  "pps_state tioc w = modem_lines w AND tioc"

definition pps_edge :: "int \<Rightarrow> locals \<Rightarrow> wakeup \<Rightarrow> int" where
  "pps_edge tioc l w = (if pps_state tioc w > state_last l then 1 else 0)"

definition pps_cycle :: "int \<Rightarrow> locals \<Rightarrow> wakeup \<Rightarrow> int" where
  "pps_cycle tioc l w = diff_usec (gettime_ts w) (pulse l ! nat (pps_edge tioc l w))"

definition pps_duration :: "int \<Rightarrow> locals \<Rightarrow> wakeup \<Rightarrow> int" where
  "pps_duration tioc l w =
     diff_usec (gettime_ts w) (pulse l ! (if pps_edge tioc l w = 0 then 1 else 0))"

text \<open>
  Lines 443-786, the iteration after the time critical section. The fix is the copy taken in
  that section, here the context's.
\<close>

definition handle_edge ::
  "int \<Rightarrow> pps_thread_t \<Rightarrow> locals \<Rightarrow> wakeup \<Rightarrow> event list \<Rightarrow>
   pps_thread_t \<times> locals \<times> event list \<times> outcome" where
  "handle_edge tioc c l w ev =
    (if tv_sec (fixin_real c) = 0 then (c, l, ev, No_fix)
     else
       (let state = pps_state tioc w;
            edge = pps_edge tioc l w;
            (ok_kpps, e_kpps, p_kpps, ev_kpps) = kpps_fetch c l w;
            cycle = pps_cycle tioc l w;
            (duration, unch, ev_unch) =
              check_unchanged state (state_last l) cycle (pps_duration tioc l w) (unchanged l);
            l1 = l\<lparr>unchanged := unch, state_last := state,
                   pulse := (pulse l)[nat edge := gettime_ts w],
                   edge_kpps := e_kpps, pulse_kpps := p_kpps\<rparr>;
            ev1 = ev @ ev_kpps @ ev_unch @
                  [Log_hook THREAD_PROG
                     ''PPS edge: %d, cycle: %7d uSec, duration: %7d uSec @ %s'']
        in if unch \<noteq> 0 then (c, l1, ev1, Strange)
           else
             (let (ok, log) =
                    dedup (last_second_used l1) (tv_sec (fixin_real c))
                      (classify cycle duration edge)
              in if ok then
                   (case accept_edge c l1 w ok_kpps of
                      (c', l', ev2, oc) \<Rightarrow> (c', l', ev1 @ ev2, oc))
                 else
                   (c, l1, ev1 @ [Log_hook THREAD_RAW ''PPS edge rejected %.100s''],
                    Edge_rejected log))))"

text \<open>One iteration of the \<^verbatim>\<open>while\<close> loop of \<^verbatim>\<open>gpsd_ppsmonitor\<close>, lines 363-786.\<close>

definition loop_body ::
  "int \<Rightarrow> pps_thread_t \<Rightarrow> locals \<Rightarrow> wakeup \<Rightarrow>
   pps_thread_t \<times> locals \<times> event list \<times> outcome" where
  "loop_body tioc c l w =
    (case wait_for_edge w of
       Inl (oc, ev) \<Rightarrow> (c, l, ev, oc)
     | Inr ev \<Rightarrow> handle_edge tioc c l w ev)"

text \<open>The four parts of what an iteration returns.\<close>

definition new_ctx :: "pps_thread_t \<times> locals \<times> event list \<times> outcome \<Rightarrow> pps_thread_t" where
  "new_ctx r = fst r"

definition new_locals :: "pps_thread_t \<times> locals \<times> event list \<times> outcome \<Rightarrow> locals" where
  "new_locals r = fst (snd r)"

definition events :: "pps_thread_t \<times> locals \<times> event list \<times> outcome \<Rightarrow> event list" where
  "events r = fst (snd (snd r))"

definition outcome :: "pps_thread_t \<times> locals \<times> event list \<times> outcome \<Rightarrow> outcome" where
  "outcome r = snd (snd (snd r))"

text \<open>
  What lines 540-658 make of a wakeup, read off the worker's variables: \<open>None\<close> when the
  iteration is given up as strange (line 571), and otherwise the classifier's \<open>(ok, log)\<close>.
\<close>

definition edge_verdict :: "int \<Rightarrow> locals \<Rightarrow> wakeup \<Rightarrow> (bool \<times> string) option" where
  "edge_verdict tioc l w =
    (let (duration, unch, ev) =
           check_unchanged (pps_state tioc w) (state_last l) (pps_cycle tioc l w)
             (pps_duration tioc l w) (unchanged l)
     in if unch \<noteq> 0 then None
        else Some (classify (pps_cycle tioc l w) duration (pps_edge tioc l w)))"

subsection \<open>The thread and its entry points\<close>

text \<open>The condition of the \<^verbatim>\<open>while\<close> loop, lines 361-362.\<close>

definition hooks_set :: "pps_thread_t \<Rightarrow> bool" where
  "hooks_set c = (report_hook c \<noteq> None \<or> pps_hook c)"

text \<open>Lines 788-798: what the thread does once it has left the loop.\<close>

definition ppsmonitor_exit :: "pps_thread_t \<Rightarrow> event list" where
  "ppsmonitor_exit c =
     (if kernelpps_handle c > 0 then
        [Log_hook THREAD_PROG ''PPS descriptor cleaned up'',
         Time_pps_destroy (kernelpps_handle c)]
      else []) @
     (if wrap_hook c then [Wrap_hook] else []) @
     [Log_hook THREAD_PROG ''PPS gpsd_ppsmonitor exited.'']"

text \<open>\<^verbatim>\<open>pps_thread_deactivate\<close>, lines 827-834.\<close>

definition pps_thread_deactivate :: "pps_thread_t \<Rightarrow> pps_thread_t" where
  "pps_thread_deactivate c = c\<lparr>report_hook := None, pps_hook := False\<rparr>"

text \<open>
  \<^verbatim>\<open>pps_thread_stash_fixtime\<close>, lines 836-860, with the return values of its two mutex
  operations.
\<close>

definition pps_thread_stash_fixtime ::
  "pps_thread_t \<Rightarrow> timespec \<Rightarrow> timespec \<Rightarrow> int \<Rightarrow> int \<Rightarrow> pps_thread_t \<times> event list" where
  "pps_thread_stash_fixtime c realtime clocktime lock_err unlock_err =
     (c\<lparr>fixin_real := realtime, fixin_clock := clocktime\<rparr>,
      mutex_log lock_err ''PPS: pthread_mutex_lock() : %s'' @
      mutex_log unlock_err ''PPS: pthread_mutex_unlock() : %s'')"

text \<open>\<^verbatim>\<open>pps_thread_lastpps\<close>, lines 862-892: the last time pair and the count.\<close>

definition pps_thread_lastpps :: "pps_thread_t \<Rightarrow> timedelta_t \<times> int" where
  "pps_thread_lastpps c = (ppsout_last c, ppsout_count c)"

text \<open>
  What happens around the thread while it runs: the reader stashes a fix, the daemon
  deactivates the thread, or \<^verbatim>\<open>TIOCMIWAIT\<close> returns. The thread spends its life blocked in
  that ioctl, so the other two reach the context between two wakeups.
\<close>

datatype input =
    Stash_fixtime timespec timespec int int
  | Deactivate
  | Edge wakeup

record monitor_run =
  run_ctx :: pps_thread_t
  run_locals :: locals
  run_trace :: "event list"
  run_outcomes :: "outcome list"
  run_exited :: bool

definition preceded :: "event list \<Rightarrow> outcome list \<Rightarrow> monitor_run \<Rightarrow> monitor_run" where
  "preceded ev ocs r = r\<lparr>run_trace := ev @ run_trace r, run_outcomes := ocs @ run_outcomes r\<rparr>"

text \<open>
  The \<^verbatim>\<open>while\<close> loop of \<^verbatim>\<open>gpsd_ppsmonitor\<close>, entered with its condition true and
  blocked in \<^verbatim>\<open>TIOCMIWAIT\<close>. After an iteration that ends in \<^verbatim>\<open>break\<close>, or whose end
  (a \<^verbatim>\<open>continue\<close> too) finds both hooks \<^verbatim>\<open>NULL\<close>, the thread runs lines 788-798 and
  returns. When the inputs end the thread is still waiting.
\<close>

fun ppsmonitor_loop :: "int \<Rightarrow> pps_thread_t \<Rightarrow> locals \<Rightarrow> input list \<Rightarrow> monitor_run" where
  "ppsmonitor_loop tioc c l [] =
     \<lparr>run_ctx = c, run_locals = l, run_trace = [], run_outcomes = [], run_exited = False\<rparr>"
| "ppsmonitor_loop tioc c l (Stash_fixtime r k e1 e2 # es) =
     (case pps_thread_stash_fixtime c r k e1 e2 of
        (c', ev) \<Rightarrow> preceded ev [] (ppsmonitor_loop tioc c' l es))"
| "ppsmonitor_loop tioc c l (Deactivate # es) =
     ppsmonitor_loop tioc (pps_thread_deactivate c) l es"
| "ppsmonitor_loop tioc c l (Edge w # es) =
     (case loop_body tioc c l w of
        (c', l', ev, oc) \<Rightarrow>
          if is_break oc \<or> \<not> hooks_set c' then
            \<lparr>run_ctx = c', run_locals = l', run_trace = ev @ ppsmonitor_exit c',
             run_outcomes = [oc], run_exited = True\<rparr>
          else preceded ev [oc] (ppsmonitor_loop tioc c' l' es))"

text \<open>\<^verbatim>\<open>gpsd_ppsmonitor\<close>, lines 313-800.\<close>

definition gpsd_ppsmonitor :: "int \<Rightarrow> pps_thread_t \<Rightarrow> input list \<Rightarrow> monitor_run" where
  "gpsd_ppsmonitor tioc c es =
     (if hooks_set c then ppsmonitor_loop tioc c locals_init es
      else \<lparr>run_ctx = c, run_locals = locals_init, run_trace = ppsmonitor_exit c,
            run_outcomes = [], run_exited = True\<rparr>)"

text \<open>The time pairs a run published, in order, and the calls that are not log calls.\<close>

fun publications :: "outcome list \<Rightarrow> timedelta_t list" where
  "publications [] = []"
| "publications (Published td # ocs) = td # publications ocs"
| "publications (oc # ocs) = publications ocs"

fun is_log :: "event \<Rightarrow> bool" where
  "is_log (Log_hook lv fmt) = True"
| "is_log e = False"

fun is_publish_call :: "event \<Rightarrow> bool" where
  "is_publish_call (Report_hook td) = True"
| "is_publish_call (Pps_hook td) = True"
| "is_publish_call e = False"

text \<open>An input that leaves the second of the stashed fix at zero.\<close>

fun no_fix_yet :: "input \<Rightarrow> bool" where
  "no_fix_yet (Stash_fixtime r k e1 e2) = (tv_sec r = 0)"
| "no_fix_yet i = True"

subsection \<open>Setting up kernel PPS\<close>

text \<open>
  What the system answers to \<^verbatim>\<open>init_kernel_pps\<close>: the return values of \<^verbatim>\<open>isatty\<close>,
  of the ioctl \<^verbatim>\<open>TIOCSETD\<close>, of \<^verbatim>\<open>getuid\<close>, of \<^verbatim>\<open>open\<close> for a path, and of the
  three RFC 2783 calls with the handle \<^verbatim>\<open>time_pps_create\<close> stores; \<^verbatim>\<open>PATH_MAX\<close>; and
  the files \<^verbatim>\<open>/sys/devices/virtual/pps/pps?/path\<close> that \<^verbatim>\<open>glob\<close> finds, each with the
  character its name has for the \<^verbatim>\<open>?\<close> (at index 28) and the bytes \<^verbatim>\<open>read\<close> returns
  (\<open>None\<close> when the file cannot be opened).
\<close>

record kpps_env =
  isatty_rc :: int
  setd_rc :: int
  path_max :: nat
  sysfs_pps :: "(char \<times> string option) list"
  uid :: int
  open_rc :: "string \<Rightarrow> int"
  create_rc :: int
  created_handle :: int
  getcap_rc :: int
  setparams_rc :: int

definition c_string :: "string \<Rightarrow> string" where
  "c_string bytes = takeWhile (\<lambda>ch. ch \<noteq> CHR 0x00) bytes"

text \<open>
  Lines 205-225, the search for the PPS device of the serial port: the \<^verbatim>\<open>pps_num\<close>
  found (still \<^verbatim>\<open>'\0'\<close> when there is none) and the log calls.
\<close>

fun find_pps_num :: "nat \<Rightarrow> string \<Rightarrow> (char \<times> string option) list \<Rightarrow> char \<times> event list" where
  "find_pps_num n name [] = (CHR 0x00, [])"
| "find_pps_num n name ((ch, file) # rest) =
     (let path =
            (case file of
               None \<Rightarrow> []
             | Some bytes \<Rightarrow>
                 (let got = take (n - 1) bytes
                  in if 0 < length got then c_string (butlast got) else []))
      in if path = name then (ch, [Log_hook THREAD_INF ''KPPS checking %s, %s''])
         else (case find_pps_num n name rest of
                 (num, ev) \<Rightarrow> (num, Log_hook THREAD_INF ''KPPS checking %s, %s'' # ev)))"

text \<open>Lines 171-236 (Linux): the path of the PPS device, or \<open>Inl\<close> for \<^verbatim>\<open>return -1\<close>.\<close>

definition pps_device_path :: "kpps_env \<Rightarrow> pps_thread_t \<Rightarrow> event list + string \<times> event list" where
  "pps_device_path env c =
    (if take 8 (devicename c) = ''/dev/pps'' then
       Inr (take (path_max env - 1) (devicename c), [])
     else if 0 > setd_rc env then
       Inl [Set_line_discipline 18,
            Log_hook THREAD_INF ''KPPS cannot set PPS line discipline on %s : %s'']
     else
       (case find_pps_num (path_max env) (devicename c) (sysfs_pps env) of
          (pps_num, ev) \<Rightarrow>
            if pps_num = CHR 0x00 then
              Inl (Set_line_discipline 18 # ev @
                   [Log_hook THREAD_INF ''KPPS device not found.''])
            else Inr (''/dev/pps'' @ [pps_num], Set_line_discipline 18 # ev)))"

text \<open>
  Lines 166-259: the descriptor for the RFC 2783 calls. On Linux the device is opened,
  after the test for root; elsewhere the descriptor is the serial port's.
\<close>

definition rfc2783_fd ::
  "bool \<Rightarrow> kpps_env \<Rightarrow> pps_thread_t \<Rightarrow> event list + int \<times> event list" where
  "rfc2783_fd linux env c =
    (if linux then
       (case pps_device_path env c of
          Inl ev \<Rightarrow> Inl ev
        | Inr (path, ev) \<Rightarrow>
            if 0 \<noteq> uid env then Inl (ev @ [Log_hook THREAD_INF ''KPPS only works as root ''])
            else if 0 > open_rc env path then
              Inl (ev @ [Open_rdwr path, Log_hook THREAD_INF ''KPPS cannot open %s: %s''])
            else Inr (open_rc env path, ev @ [Open_rdwr path]))
     else Inr (devicefd c, []))"

text \<open>
  \<^verbatim>\<open>init_kernel_pps\<close>, lines 139-308: the value returned, the context and the calls made.
  \<open>linux\<close> says whether \<^verbatim>\<open>__linux__\<close> is defined.
\<close>

definition init_kernel_pps ::
  "bool \<Rightarrow> kpps_env \<Rightarrow> pps_thread_t \<Rightarrow> int \<times> pps_thread_t \<times> event list" where
  "init_kernel_pps linux env c0 =
    (let c = c0\<lparr>kernelpps_handle := - 1\<rparr>
     in if isatty_rc env = 0 then (- 1, c, [Log_hook THREAD_INF ''KPPS gps_fd not a tty''])
        else
          (case rfc2783_fd linux env c of
             Inl ev \<Rightarrow> (- 1, c, ev)
           | Inr (ret, ev) \<Rightarrow>
               (let ev1 = ev @ [Log_hook THREAD_INF ''KPPS RFC2783 fd is %d'', Time_pps_create ret]
                in if 0 > create_rc env then
                     (- 1, c, ev1 @ [Log_hook THREAD_INF ''KPPS time_pps_create(%d) failed: %s''])
                   else
                     (let c1 = c\<lparr>kernelpps_handle := created_handle env\<rparr>;
                          ev2 = ev1 @
                            [if 0 > getcap_rc env then
                               Log_hook THREAD_ERROR ''KPPS time_pps_getcap() failed''
                             else Log_hook THREAD_INF ''KPPS caps %0x'']
                      in if 0 > setparams_rc env then
                           (- 1, c1,
                            ev2 @ [Log_hook THREAD_ERROR ''KPPS time_pps_setparams() failed: %s'',
                                   Time_pps_destroy (kernelpps_handle c1)])
                         else (0, c1, ev2)))))"

text \<open>The calls that open the PPS device or work on a kernel PPS handle.\<close>

fun uses_pps_device :: "event \<Rightarrow> bool" where
  "uses_pps_device (Open_rdwr path) = True"
| "uses_pps_device (Time_pps_create fd) = True"
| "uses_pps_device (Time_pps_destroy h) = True"
| "uses_pps_device e = False"

subsection \<open>Scripted inputs\<close>

text \<open>
  Inputs for running the model: a context in which nothing has been stashed or published
  yet, with all hooks set and no kernel PPS handle; a wakeup at which every call succeeds,
  given by the clock reading and the modem lines; and \<^verbatim>\<open>PPS_LINE_TIOC\<close> with the bits of
  Linux (\<^verbatim>\<open>TIOCM_CAR\<close> 0x040, \<^verbatim>\<open>TIOCM_RNG\<close> 0x080, \<^verbatim>\<open>TIOCM_CTS\<close> 0x020).
\<close>

definition at_time :: "int \<Rightarrow> int \<Rightarrow> timespec" where
  "at_time s n = \<lparr>tv_sec = s, tv_nsec = n\<rparr>"

definition idle_context :: pps_thread_t where
  "idle_context =
     \<lparr>devicefd = 3, devicename = ''/dev/ttyS0'', kernelpps_handle = - 1,
      report_hook = Some (\<lambda>td. ''tag''), pps_hook = True, wrap_hook = True,
      fixin_real = at_time 0 0, fixin_clock = at_time 0 0,
      ppsout_last = \<lparr>real = at_time 0 0, clock = at_time 0 0\<rparr>, ppsout_count = 0\<rparr>"

definition edge_at :: "timespec \<Rightarrow> int \<Rightarrow> wakeup" where
  "edge_at t lines =
     \<lparr>miwait_rc = 0, lock_rc = 0, unlock_rc = 0, gettime_rc = 0, gettime_ts = t,
      mget_rc = 0, modem_lines = lines, fetch_rc = - 1,
      assert_timestamp = at_time 0 0, clear_timestamp = at_time 0 0,
      publish_lock_rc = 0, publish_unlock_rc = 0\<rparr>"

definition linux_tioc :: int where
  "linux_tioc = 224"

text \<open>
  A fix for the second 1700000000 is stashed at clock time 1000 s and no other follows. The
  pulse, 50 ms long on the carrier line, is seen from 1001.5 s on, so its leading edge at
  1002.5 s is the first edge with a valid cycle: it comes 2.5 s after the fix.
\<close>

definition stale_fix_script :: "input list" where
  "stale_fix_script =
     [Stash_fixtime (at_time 1700000000 0) (at_time 1000 0) 0 0,
      Edge (edge_at (at_time 1001 500000000) 64),
      Edge (edge_at (at_time 1001 550000000) 0),
      Edge (edge_at (at_time 1002 500000000) 64)]"

text \<open>
  The same pulse once the worker has seen it (clear edge at 1001.55 s, assert edge at
  1001.5 s), and a context whose fix for the second 1700000000 arrived at 1002 s.
\<close>

definition tracking_locals :: locals where
  "tracking_locals =
     locals_init\<lparr>pulse := [at_time 1001 550000000, at_time 1001 500000000]\<rparr>"

definition fixed_context :: pps_thread_t where
  "fixed_context =
     idle_context\<lparr>fixin_real := at_time 1700000000 0, fixin_clock := at_time 1002 0\<rparr>"

text \<open>A system in which the daemon does not run as root, and an explicit PPS device.\<close>

definition user_env :: kpps_env where
  "user_env =
     \<lparr>isatty_rc = 1, setd_rc = - 1, path_max = 4096, sysfs_pps = [], uid = 1000,
      open_rc = (\<lambda>path. 5), create_rc = 0, created_handle = 5, getcap_rc = 0,
      setparams_rc = 0\<rparr>"

definition pps0_context :: pps_thread_t where
  "pps0_context = idle_context\<lparr>devicename := ''/dev/pps0''\<rparr>"

text \<open>
  A 0.5 Hz square wave on the carrier line, an edge every second from 1000.5 s on. The fix
  for the second 1700000001 is there before the edge at 1002.5 s, the next fix only after
  the edge at 1003.5 s.
\<close>

definition square_wave_script :: "input list" where
  "square_wave_script =
     [Stash_fixtime (at_time 1699999999 0) (at_time 1000 0) 0 0,
      Edge (edge_at (at_time 1000 500000000) 64),
      Edge (edge_at (at_time 1001 500000000) 0),
      Stash_fixtime (at_time 1700000001 0) (at_time 1002 0) 0 0,
      Edge (edge_at (at_time 1002 500000000) 64),
      Edge (edge_at (at_time 1003 500000000) 0),
      Stash_fixtime (at_time 1700000002 0) (at_time 1004 0) 0 0,
      Edge (edge_at (at_time 1004 500000000) 64)]"

text \<open>A clean 1 Hz pulse while the receiver has no time yet.\<close>

definition no_fix_script :: "input list" where
  "no_fix_script =
     [Edge (edge_at (at_time 1000 500000000) 64),
      Edge (edge_at (at_time 1000 550000000) 0),
      Stash_fixtime (at_time 0 0) (at_time 1001 0) 0 0,
      Edge (edge_at (at_time 1001 500000000) 64),
      Edge (edge_at (at_time 1001 550000000) 0)]"

text \<open>
  With a fix stashed, three wakeups 0.2 s apart that find the modem lines as they were.
\<close>

definition stuck_script :: "input list" where
  "stuck_script =
     [Stash_fixtime (at_time 1700000000 0) (at_time 1000 0) 0 0,
      Edge (edge_at (at_time 1000 500000000) 0),
      Edge (edge_at (at_time 1000 700000000) 0),
      Edge (edge_at (at_time 1000 900000000) 0)]"

section \<open>Theorems\<close>

subsection \<open>Normalization\<close>

text \<open>
  C2, as amended. For every timespec whose \<^verbatim>\<open>tv_sec\<close> is neither the least nor the
  greatest value of a 64-bit \<^verbatim>\<open>time_t\<close> (so that \<^verbatim>\<open>tv_sec++\<close> and \<^verbatim>\<open>tv_sec--\<close> do
  not overflow) and with \<open>|tv_nsec| < 2 * 10\<^sup>9\<close>, the sign rules hold after
  \<^verbatim>\<open>TS_NORM\<close> exactly when the input is not one that needs two steps: they hold unless
  \<^verbatim>\<open>tv_sec \<ge> 2\<close> comes with \<^verbatim>\<open>tv_nsec < -10\<^sup>9\<close>, or \<^verbatim>\<open>tv_sec \<le> -2\<close> with
  \<^verbatim>\<open>tv_nsec > 10\<^sup>9\<close>. The macro borrows or carries once, as its comment says.
\<close>

theorem TS_NORM_sign_rules:
  assumes "- 9223372036854775808 < tv_sec ts" and "tv_sec ts < 9223372036854775807"
    and "\<bar>tv_nsec ts\<bar> < 2000000000"
  shows "sign_rules (TS_NORM ts) = (\<not> needs_two_steps ts)"
  using assms by (auto simp: TS_NORM_def sign_rules_def needs_two_steps_def)

text \<open>C2, a run of the theorem: 3 s less 5 ns becomes 2.999999995 s.\<close>

theorem TS_NORM_sign_rules_witness:
  "- 9223372036854775808 < tv_sec \<lparr>tv_sec = 3, tv_nsec = - 5\<rparr> \<and>
   tv_sec \<lparr>tv_sec = 3, tv_nsec = - 5\<rparr> < 9223372036854775807 \<and>
   \<bar>tv_nsec \<lparr>tv_sec = 3, tv_nsec = - 5\<rparr>\<bar> < 2000000000 \<and>
   sign_rules (TS_NORM \<lparr>tv_sec = 3, tv_nsec = - 5\<rparr>)"
  using TS_NORM_sign_rules [of "\<lparr>tv_sec = 3, tv_nsec = - 5\<rparr>"]
  by (simp add: needs_two_steps_def)

text \<open>
  C2 as stated fails: 5 s less 1.5 s is within the bound on \<^verbatim>\<open>tv_nsec\<close>, and
  \<^verbatim>\<open>TS_NORM\<close> leaves it at 4 s less 0.5 s, a positive \<^verbatim>\<open>tv_sec\<close> with a negative
  \<^verbatim>\<open>tv_nsec\<close>.
\<close>

theorem TS_NORM_sign_rules_counterexample:
  "\<bar>tv_nsec \<lparr>tv_sec = 5, tv_nsec = - 1500000000\<rparr>\<bar> < 2000000000 \<and>
   TS_NORM \<lparr>tv_sec = 5, tv_nsec = - 1500000000\<rparr> = \<lparr>tv_sec = 4, tv_nsec = - 500000000\<rparr> \<and>
   \<not> sign_rules (TS_NORM \<lparr>tv_sec = 5, tv_nsec = - 1500000000\<rparr>)"
  by (simp add: TS_NORM_def sign_rules_def)

text \<open>
  C3, as amended. Let neither the timespec nor what \<^verbatim>\<open>TS_NORM\<close> makes of it have the
  least or the greatest value of a 64-bit \<^verbatim>\<open>time_t\<close> as its \<^verbatim>\<open>tv_sec\<close>, so that
  neither of the two applications overflows. Then \<^verbatim>\<open>TS_NORM\<close> applied twice gives what
  it gives once exactly when \<open>|tv_nsec| < 2 * 10\<^sup>9\<close> and the timespec does not need two
  steps; this includes every such timespec with \<open>|tv_nsec| \<le> 10\<^sup>9\<close>.
\<close>

theorem TS_NORM_idempotent:
  assumes "- 9223372036854775808 < tv_sec ts" and "tv_sec ts < 9223372036854775807"
    and "- 9223372036854775808 < tv_sec (TS_NORM ts)"
    and "tv_sec (TS_NORM ts) < 9223372036854775807"
  shows "(TS_NORM (TS_NORM ts) = TS_NORM ts) =
         (\<bar>tv_nsec ts\<bar> < 2000000000 \<and> \<not> needs_two_steps ts)"
  by (auto simp: TS_NORM_def needs_two_steps_def)

text \<open>
  C3, a run of the theorem: 3 s less 5 ns becomes 2.999999995 s, and stays so.
\<close>

theorem TS_NORM_idempotent_witness:
  "- 9223372036854775808 < tv_sec \<lparr>tv_sec = 3, tv_nsec = - 5\<rparr> \<and>
   tv_sec \<lparr>tv_sec = 3, tv_nsec = - 5\<rparr> < 9223372036854775807 \<and>
   TS_NORM \<lparr>tv_sec = 3, tv_nsec = - 5\<rparr> = \<lparr>tv_sec = 2, tv_nsec = 999999995\<rparr> \<and>
   \<bar>tv_nsec \<lparr>tv_sec = 3, tv_nsec = - 5\<rparr>\<bar> < 2000000000 \<and>
   \<not> needs_two_steps \<lparr>tv_sec = 3, tv_nsec = - 5\<rparr> \<and>
   TS_NORM (TS_NORM \<lparr>tv_sec = 3, tv_nsec = - 5\<rparr>) = TS_NORM \<lparr>tv_sec = 3, tv_nsec = - 5\<rparr>"
proof -
  let ?ts = "\<lparr>tv_sec = 3, tv_nsec = - 5\<rparr>"
  have once: "TS_NORM ?ts = \<lparr>tv_sec = 2, tv_nsec = 999999995\<rparr>"
    by (simp add: TS_NORM_def)
  have h1: "- 9223372036854775808 < tv_sec ?ts" and h2: "tv_sec ?ts < 9223372036854775807"
    by simp_all
  have h3: "- 9223372036854775808 < tv_sec (TS_NORM ?ts)"
    and h4: "tv_sec (TS_NORM ?ts) < 9223372036854775807"
    by (simp_all add: once)
  have rhs: "\<bar>tv_nsec ?ts\<bar> < 2000000000 \<and> \<not> needs_two_steps ?ts"
    by (simp add: needs_two_steps_def)
  from TS_NORM_idempotent [OF h1 h2 h3 h4] rhs
  have "TS_NORM (TS_NORM ?ts) = TS_NORM ?ts" by blast
  with once h1 h2 rhs show ?thesis by blast
qed

text \<open>
  C3 as stated fails: -5 s plus 1.5 s becomes -4 s plus 0.5 s, and a second application
  carries once more.
\<close>

theorem TS_NORM_idempotent_counterexample:
  "TS_NORM \<lparr>tv_sec = - 5, tv_nsec = 1500000000\<rparr> = \<lparr>tv_sec = - 4, tv_nsec = 500000000\<rparr> \<and>
   TS_NORM (TS_NORM \<lparr>tv_sec = - 5, tv_nsec = 1500000000\<rparr>) =
     \<lparr>tv_sec = - 3, tv_nsec = - 500000000\<rparr> \<and>
   TS_NORM (TS_NORM \<lparr>tv_sec = - 5, tv_nsec = 1500000000\<rparr>) \<noteq>
     TS_NORM \<lparr>tv_sec = - 5, tv_nsec = 1500000000\<rparr>"
  by (simp add: TS_NORM_def)

text \<open>
  The case the macro is written for: the difference of two normalized timespecs is
  normalized.
\<close>

lemma TS_SUB_normalized:
  assumes "normalized a" and "normalized b"
  shows "normalized (TS_SUB a b)"
  using assms
  by (auto simp: normalized_def sign_rules_def TS_SUB_def TS_NORM_def split: if_splits)

lemma TS_SUB_self: "TS_SUB a a = \<lparr>tv_sec = 0, tv_nsec = 0\<rparr>"
  by (simp add: TS_SUB_def TS_NORM_def)

text \<open>
  \<^verbatim>\<open>TS_NORM\<close> moves \<^verbatim>\<open>tv_nsec\<close> towards zero and \<^verbatim>\<open>tv_sec\<close> by at most one: on a
  timespec whose \<^verbatim>\<open>tv_sec\<close> is neither the least nor the greatest 64-bit value the
  macro does not overflow, and the integers of the model are the values of the C fields.
\<close>

lemma TS_NORM_in_range:
  assumes "- 9223372036854775808 < tv_sec ts" and "tv_sec ts < 9223372036854775807"
  shows "- 9223372036854775808 \<le> tv_sec (TS_NORM ts) \<and>
         tv_sec (TS_NORM ts) \<le> 9223372036854775807 \<and>
         \<bar>tv_nsec (TS_NORM ts)\<bar> \<le> max \<bar>tv_nsec ts\<bar> 1000000000"
  using assms by (auto simp: TS_NORM_def)

subsection \<open>Running the model\<close>

lemmas step_parts = new_ctx_def new_locals_def events_def outcome_def

lemmas run_defs =
  gpsd_ppsmonitor_def hooks_set_def idle_context_def
  pps_thread_stash_fixtime_def mutex_log_def preceded_def loop_body_def wait_for_edge_def
  edge_at_def handle_edge_def at_time_def linux_tioc_def pps_state_def pps_edge_def
  pps_cycle_def pps_duration_def locals_init_def kpps_fetch_def diff_usec_def
  timespec_diff_ns_def c_div_def to_int_def check_unchanged_def classify_def dedup_def
  accept_edge_def TS_SUB_def TS_NORM_def check_delay_def is_break_def Let_def
  tracking_locals_def fixed_context_def step_parts

subsection \<open>One iteration\<close>

text \<open>
  An accepted edge is published or it fails a sanity check; only the first changes the
  context or the worker's variables.
\<close>

lemma accept_edge_cases:
  assumes "accept_edge c l w k = (c', l', ev, oc)"
  shows "(\<exists>td. oc = Published td \<and>
            real td = \<lparr>tv_sec = tv_sec (fixin_real c) + 1, tv_nsec = 0\<rparr> \<and>
            c' = c\<lparr>ppsout_last := td, ppsout_count := ppsout_count c + 1\<rparr> \<and>
            l' = l\<lparr>last_second_used := tv_sec (fixin_real c)\<rparr>) \<or>
         ((\<exists>s. oc = Not_published s) \<and> c' = c \<and> l' = l)"
  using assms
  by (auto simp: accept_edge_def Let_def split: delay_verdict.splits)

lemma handle_edge_cases:
  assumes "handle_edge tioc c l w ev0 = (c', l', ev, oc)"
  shows "(\<exists>td. oc = Published td \<and> last_second_used l < tv_sec (fixin_real c) \<and>
            real td = \<lparr>tv_sec = tv_sec (fixin_real c) + 1, tv_nsec = 0\<rparr> \<and>
            c' = c\<lparr>ppsout_last := td, ppsout_count := ppsout_count c + 1\<rparr> \<and>
            last_second_used l' = tv_sec (fixin_real c)) \<or>
         ((\<forall>td. oc \<noteq> Published td) \<and> c' = c \<and>
          last_second_used l' = last_second_used l)"
  using assms
  apply (simp add: handle_edge_def Let_def split: if_splits prod.splits)
  apply (auto simp: dedup_def dest!: accept_edge_cases split: if_splits)
  done

lemma loop_body_cases:
  assumes "loop_body tioc c l w = (c', l', ev, oc)"
  shows "(\<exists>td. oc = Published td \<and> last_second_used l < tv_sec (fixin_real c) \<and>
            real td = \<lparr>tv_sec = tv_sec (fixin_real c) + 1, tv_nsec = 0\<rparr> \<and>
            c' = c\<lparr>ppsout_last := td, ppsout_count := ppsout_count c + 1\<rparr> \<and>
            last_second_used l' = tv_sec (fixin_real c)) \<or>
         ((\<forall>td. oc \<noteq> Published td) \<and> c' = c \<and>
          last_second_used l' = last_second_used l)"
proof (cases "wait_for_edge w")
  case (Inl a)
  then show ?thesis
    using assms
    by (cases a) (auto simp: loop_body_def wait_for_edge_def Let_def split: if_splits)
next
  case (Inr ev0)
  then have "handle_edge tioc c l w ev0 = (c', l', ev, oc)"
    using assms by (simp add: loop_body_def)
  then show ?thesis by (rule handle_edge_cases)
qed

subsection \<open>The classifier\<close>

text \<open>
  C6. A cycle of 1000000 us with a duration of 500000 us, the 1 Hz square wave, is
  accepted by the classifier if and only if the edge is an assert edge (\<^verbatim>\<open>edge == 1\<close>);
  a clear edge is rejected.
\<close>

theorem classify_square_wave:
  "fst (classify 1000000 500000 edge) = (edge = 1)"
  by (simp add: classify_def)

subsection \<open>The delay after the fix\<close>

text \<open>
  C1 does not hold of the code. The test of lines 727-728 is
  \<^verbatim>\<open>2 < delay.tv_sec || (1 == delay.tv_sec && 100000000 > delay.tv_nsec)\<close>, under the
  comment "system clock could be slewing so allow 1.1 sec delay": a delay of 1 s and
  99999999 ns is refused as out of range, delays of 1 s and 100000000 ns and of 2.5 s are
  let through, and the edge that comes 2.5 s after the only fix is published, which makes
  the count 1.
\<close>

theorem delay_window_inverted:
  "check_delay \<lparr>tv_sec = 1, tv_nsec = 99999999\<rparr> = Timestamp_out_of_range \<and>
   check_delay \<lparr>tv_sec = 1, tv_nsec = 100000000\<rparr> = Delay_accepted \<and>
   check_delay \<lparr>tv_sec = 2, tv_nsec = 500000000\<rparr> = Delay_accepted \<and>
   run_outcomes (gpsd_ppsmonitor linux_tioc idle_context stale_fix_script) =
     [Edge_rejected ''Too long for 0.5Hz'', Edge_rejected ''Too long for 0.5Hz'',
      Published \<lparr>real = \<lparr>tv_sec = 1700000001, tv_nsec = 0\<rparr>,
                 clock = \<lparr>tv_sec = 1002, tv_nsec = 500000000\<rparr>\<rparr>] \<and>
   ppsout_count (run_ctx (gpsd_ppsmonitor linux_tioc idle_context stale_fix_script)) = 1"
  by (simp add: run_defs stale_fix_script_def)

subsection \<open>Publication\<close>



subsection \<open>Leaving the loop\<close>

text \<open>
  A handle above zero is destroyed before the wrap hook is called.
\<close>

lemma exit_destroys_positive_handle:
  assumes "0 < kernelpps_handle c" and "wrap_hook c"
  shows "ppsmonitor_exit c =
           [Log_hook THREAD_PROG ''PPS descriptor cleaned up'',
            Time_pps_destroy (kernelpps_handle c), Wrap_hook,
            Log_hook THREAD_PROG ''PPS gpsd_ppsmonitor exited.'']"
  using assms by (simp add: ppsmonitor_exit_def)

text \<open>
  C7 does not hold of the code. Line 789 tests \<^verbatim>\<open>kernelpps_handle > 0\<close>, while the
  loop (lines 456 and 682) and \<^verbatim>\<open>pps_thread_activate\<close> (line 815) take every handle
  with \<^verbatim>\<open>0 <= kernelpps_handle\<close> as valid: with the handle 0 the thread fetches kernel
  timestamps in the loop, and on exit calls the wrap hook without a call of
  \<^verbatim>\<open>time_pps_destroy\<close>.
\<close>

theorem exit_keeps_handle_zero:
  "ppsmonitor_exit (c\<lparr>kernelpps_handle := 0, wrap_hook := True\<rparr>) =
     [Wrap_hook, Log_hook THREAD_PROG ''PPS gpsd_ppsmonitor exited.''] \<and>
   kpps_fetch (c\<lparr>kernelpps_handle := 0\<rparr>) l (w\<lparr>fetch_rc := - 1\<rparr>) =
     (False, edge_kpps l, pulse_kpps l, [Log_hook THREAD_ERROR ''KPPS kernel PPS failed''])"
  by (simp add: ppsmonitor_exit_def kpps_fetch_def)

subsection \<open>Runs of the thread\<close>

lemma publications_other:
  "(\<forall>td. oc \<noteq> Published td) \<Longrightarrow> publications (oc # ocs) = publications ocs"
  by (cases oc) auto

lemma run_preceded [simp]:
  "run_outcomes (preceded ev ocs r) = ocs @ run_outcomes r"
  "run_trace (preceded ev ocs r) = ev @ run_trace r"
  "run_ctx (preceded ev ocs r) = run_ctx r"
  "run_locals (preceded ev ocs r) = run_locals r"
  "run_exited (preceded ev ocs r) = run_exited r"
  by (simp_all add: preceded_def)

text \<open>
  The seconds published by a run of the loop increase strictly, and all lie more than one
  above the second that was used last before the run.
\<close>

lemma loop_publications:
  "sorted_wrt (<)
     (map (\<lambda>td. tv_sec (real td))
        (publications (run_outcomes (ppsmonitor_loop tioc c l es)))) \<and>
   (\<forall>td \<in> set (publications (run_outcomes (ppsmonitor_loop tioc c l es))).
      last_second_used l + 1 < tv_sec (real td))"
proof (induction es arbitrary: c l)
  case Nil
  show ?case by simp
next
  case (Cons i es)
  show ?case
  proof (cases i)
    case (Stash_fixtime r k e1 e2)
    then show ?thesis
      using Cons.IH [of "fst (pps_thread_stash_fixtime c r k e1 e2)" l]
      by (simp add: pps_thread_stash_fixtime_def)
  next
    case Deactivate
    then show ?thesis using Cons.IH [of "pps_thread_deactivate c" l] by simp
  next
    case (Edge w)
    obtain c' l' ev oc where r: "loop_body tioc c l w = (c', l', ev, oc)"
      by (cases "loop_body tioc c l w") auto
    from loop_body_cases [OF r] show ?thesis
    proof
      assume "\<exists>td. oc = Published td \<and> last_second_used l < tv_sec (fixin_real c) \<and>
            real td = \<lparr>tv_sec = tv_sec (fixin_real c) + 1, tv_nsec = 0\<rparr> \<and>
            c' = c\<lparr>ppsout_last := td, ppsout_count := ppsout_count c + 1\<rparr> \<and>
            last_second_used l' = tv_sec (fixin_real c)"
      then obtain td where "oc = Published td"
        and "last_second_used l < tv_sec (fixin_real c)"
        and "tv_sec (real td) = tv_sec (fixin_real c) + 1"
        and "last_second_used l' = tv_sec (fixin_real c)"
        by auto
      with Cons.IH [of c' l'] Edge r show ?thesis by auto
    next
      assume "(\<forall>td. oc \<noteq> Published td) \<and> c' = c \<and>
              last_second_used l' = last_second_used l"
      with Cons.IH [of c' l'] Edge r show ?thesis
        by (auto simp: publications_other)
    qed
  qed
qed

lemma monitor_publications:
  "sorted_wrt (<)
     (map (\<lambda>td. tv_sec (real td))
        (publications (run_outcomes (gpsd_ppsmonitor tioc c es))))"
  using loop_publications [of tioc c locals_init es]
  by (simp add: gpsd_ppsmonitor_def)

subsection \<open>A second is used once\<close>

lemma dedup_rejects:
  assumes "last_second_used l \<ge> tv_sec (fixin_real c)"
    and "wait_for_edge w = Inr ev0" and "tv_sec (fixin_real c) \<noteq> 0"
    and "edge_verdict tioc l w = Some (True, log)"
  shows "outcome (loop_body tioc c l w) = Edge_rejected ''this second already handled''"
  using assms
  by (auto simp: loop_body_def handle_edge_def edge_verdict_def dedup_def outcome_def Let_def
           split: prod.splits if_splits)

lemma dedup_no_publication:
  assumes "last_second_used l \<ge> tv_sec (fixin_real c)"
  shows "(\<forall>td. outcome (loop_body tioc c l w) \<noteq> Published td) \<and>
         new_ctx (loop_body tioc c l w) = c"
proof -
  obtain c' l' ev oc where r: "loop_body tioc c l w = (c', l', ev, oc)"
    by (cases "loop_body tioc c l w") auto
  from loop_body_cases [OF r] assms show ?thesis
    by (auto simp: r new_ctx_def outcome_def)
qed

lemma loop_body_last_second:
  assumes "outcome (loop_body tioc c l w) = Published td"
  shows "last_second_used (new_locals (loop_body tioc c l w)) = tv_sec (fixin_real c)"
proof -
  obtain c' l' ev oc where r: "loop_body tioc c l w = (c', l', ev, oc)"
    by (cases "loop_body tioc c l w") auto
  with assms have "oc = Published td" by (simp add: outcome_def)
  with loop_body_cases [OF r] show ?thesis
    by (auto simp: r new_locals_def)
qed

text \<open>
  C5. When \<^verbatim>\<open>last_second_used\<close> is at least the \<^verbatim>\<open>tv_sec\<close> of the copied fix, the
  iteration publishes nothing and leaves the context as it was, and an edge the
  classifier accepted is rejected as "this second already handled". An iteration that
  publishes sets \<^verbatim>\<open>last_second_used\<close> to the \<^verbatim>\<open>tv_sec\<close> of the fix. So in every run
  of the thread the seconds published increase strictly: no second is published twice.
\<close>

theorem one_publication_per_second:
  "(last_second_used l \<ge> tv_sec (fixin_real c) \<longrightarrow>
      (\<forall>td. outcome (loop_body tioc c l w) \<noteq> Published td) \<and>
      new_ctx (loop_body tioc c l w) = c \<and>
      (wait_for_edge w = Inr ev0 \<and> tv_sec (fixin_real c) \<noteq> 0 \<and>
       edge_verdict tioc l w = Some (True, log) \<longrightarrow>
         outcome (loop_body tioc c l w) = Edge_rejected ''this second already handled'')) \<and>
   (outcome (loop_body tioc c l w) = Published td \<longrightarrow>
      last_second_used (new_locals (loop_body tioc c l w)) = tv_sec (fixin_real c)) \<and>
   sorted_wrt (<)
     (map (\<lambda>td. tv_sec (real td))
        (publications (run_outcomes (gpsd_ppsmonitor tioc c0 es)))) \<and>
   distinct
     (map (\<lambda>td. tv_sec (real td))
        (publications (run_outcomes (gpsd_ppsmonitor tioc c0 es))))"
proof -
  have "distinct
     (map (\<lambda>td. tv_sec (real td))
        (publications (run_outcomes (gpsd_ppsmonitor tioc c0 es))))"
    using monitor_publications [of tioc c0 es] strict_sorted_iff by blast
  then show ?thesis
    using dedup_no_publication [of c l tioc w] dedup_rejects [of c l w ev0 tioc log]
      loop_body_last_second [of tioc c l w td] monitor_publications [of tioc c0 es]
    by blast
qed

text \<open>
  C5, runs of the theorem. With the second 1700000000 used already, the leading edge at
  1002.5 s is rejected as handled; with no second used yet it is published, and the second
  is recorded. On the 0.5 Hz square wave the edge at 1003.5 s finds the second of the edge
  at 1002.5 s used, and the run publishes the seconds 1700000002 and 1700000003.
\<close>

theorem one_publication_per_second_witness:
  "last_second_used (tracking_locals\<lparr>last_second_used := 1700000000\<rparr>) \<ge>
     tv_sec (fixin_real fixed_context) \<and>
   edge_verdict linux_tioc (tracking_locals\<lparr>last_second_used := 1700000000\<rparr>)
     (edge_at (at_time 1002 500000000) 64) = Some (True, ''1Hz leading edge'') \<and>
   outcome (loop_body linux_tioc fixed_context
              (tracking_locals\<lparr>last_second_used := 1700000000\<rparr>)
              (edge_at (at_time 1002 500000000) 64)) =
     Edge_rejected ''this second already handled'' \<and>
   last_second_used
     (new_locals (loop_body linux_tioc fixed_context tracking_locals
                    (edge_at (at_time 1002 500000000) 64))) = 1700000000 \<and>
   run_outcomes (gpsd_ppsmonitor linux_tioc idle_context square_wave_script) =
     [Edge_rejected ''Too long for 0.5Hz'', Edge_rejected ''Too long for 0.5Hz'',
      Published \<lparr>real = \<lparr>tv_sec = 1700000002, tv_nsec = 0\<rparr>,
                 clock = \<lparr>tv_sec = 1002, tv_nsec = 500000000\<rparr>\<rparr>,
      Edge_rejected ''this second already handled'',
      Published \<lparr>real = \<lparr>tv_sec = 1700000003, tv_nsec = 0\<rparr>,
                 clock = \<lparr>tv_sec = 1004, tv_nsec = 500000000\<rparr>\<rparr>] \<and>
   distinct
     (map (\<lambda>td. tv_sec (real td))
        (publications
           (run_outcomes (gpsd_ppsmonitor linux_tioc idle_context square_wave_script))))"
proof -
  let ?w = "edge_at (at_time 1002 500000000) 64"
  let ?l = "tracking_locals\<lparr>last_second_used := 1700000000\<rparr>"
  have a: "last_second_used ?l \<ge> tv_sec (fixin_real fixed_context)"
    by (simp add: run_defs)
  have b: "wait_for_edge ?w =
             Inr [Log_hook THREAD_PROG ''PPS ioctl(TIOCMIWAIT) on %s succeeded'']"
    by (simp add: run_defs)
  have c: "tv_sec (fixin_real fixed_context) \<noteq> 0"
    by (simp add: run_defs)
  have d: "edge_verdict linux_tioc ?l ?w = Some (True, ''1Hz leading edge'')"
    by (simp add: run_defs edge_verdict_def)
  have e: "outcome (loop_body linux_tioc fixed_context tracking_locals ?w) =
             Published \<lparr>real = \<lparr>tv_sec = 1700000001, tv_nsec = 0\<rparr>,
                        clock = \<lparr>tv_sec = 1002, tv_nsec = 500000000\<rparr>\<rparr>"
    by (simp add: run_defs)
  have f: "tv_sec (fixin_real fixed_context) = 1700000000"
    by (simp add: run_defs)
  have g: "run_outcomes (gpsd_ppsmonitor linux_tioc idle_context square_wave_script) =
     [Edge_rejected ''Too long for 0.5Hz'', Edge_rejected ''Too long for 0.5Hz'',
      Published \<lparr>real = \<lparr>tv_sec = 1700000002, tv_nsec = 0\<rparr>,
                 clock = \<lparr>tv_sec = 1002, tv_nsec = 500000000\<rparr>\<rparr>,
      Edge_rejected ''this second already handled'',
      Published \<lparr>real = \<lparr>tv_sec = 1700000003, tv_nsec = 0\<rparr>,
                 clock = \<lparr>tv_sec = 1004, tv_nsec = 500000000\<rparr>\<rparr>]"
    by (simp add: run_defs square_wave_script_def)
  from one_publication_per_second
         [where l = ?l and c = fixed_context and tioc = linux_tioc and w = ?w
            and ?ev0.0 = "[Log_hook THREAD_PROG ''PPS ioctl(TIOCMIWAIT) on %s succeeded'']"
            and log = "''1Hz leading edge''" and ?c0.0 = idle_context
            and es = square_wave_script]
  have 1: "outcome (loop_body linux_tioc fixed_context ?l ?w) =
             Edge_rejected ''this second already handled''"
    and 2: "distinct
     (map (\<lambda>td. tv_sec (real td))
        (publications
           (run_outcomes (gpsd_ppsmonitor linux_tioc idle_context square_wave_script))))"
    using a b c d by blast+
  from one_publication_per_second
         [where l = tracking_locals and c = fixed_context and tioc = linux_tioc and w = ?w
            and td = "\<lparr>real = \<lparr>tv_sec = 1700000001, tv_nsec = 0\<rparr>,
                       clock = \<lparr>tv_sec = 1002, tv_nsec = 500000000\<rparr>\<rparr>"]
  have 3: "last_second_used (new_locals (loop_body linux_tioc fixed_context tracking_locals ?w)) =
             1700000000"
    using e f by simp
  from a d 1 2 3 g show ?thesis by blast
qed

subsection \<open>Before the first fix\<close>

lemma loop_body_no_fix:
  assumes "tv_sec (fixin_real c) = 0"
  shows "loop_body tioc c l w =
           (c, l, (case wait_for_edge w of Inl (oc, ev) \<Rightarrow> ev | Inr ev \<Rightarrow> ev),
            (case wait_for_edge w of Inl (oc, ev) \<Rightarrow> oc | Inr ev \<Rightarrow> No_fix))"
  using assms by (simp add: loop_body_def handle_edge_def split: sum.splits prod.splits)

lemma mutex_log_is_log: "list_all is_log (mutex_log e fmt)"
  by (simp add: mutex_log_def)

lemma wait_for_edge_logs:
  "list_all is_log (case wait_for_edge w of Inl (oc, ev) \<Rightarrow> ev | Inr ev \<Rightarrow> ev)"
  by (simp add: wait_for_edge_def Let_def mutex_log_is_log)

lemma wait_for_edge_break:
  "wait_for_edge w = Inl (oc, ev) \<Longrightarrow> is_break oc"
  by (auto simp: wait_for_edge_def Let_def is_break_def split: if_splits)

lemma is_log_not_publish:
  "list_all is_log evs \<Longrightarrow> list_all (\<lambda>e. \<not> is_publish_call e) evs"
proof (induction evs)
  case Nil
  show ?case by simp
next
  case (Cons e evs)
  then show ?case by (cases e) auto
qed

lemma exit_no_publish: "list_all (\<lambda>e. \<not> is_publish_call e) (ppsmonitor_exit c)"
  by (simp add: ppsmonitor_exit_def)

text \<open>
  As long as the stashed fix has the second zero, the loop publishes nothing, calls neither
  the report hook nor the publish hook, and keeps its variables.
\<close>

lemma loop_no_fix:
  assumes "tv_sec (fixin_real c) = 0" and "list_all no_fix_yet es"
  shows "publications (run_outcomes (ppsmonitor_loop tioc c l es)) = [] \<and>
         ppsout_count (run_ctx (ppsmonitor_loop tioc c l es)) = ppsout_count c \<and>
         ppsout_last (run_ctx (ppsmonitor_loop tioc c l es)) = ppsout_last c \<and>
         run_locals (ppsmonitor_loop tioc c l es) = l \<and>
         list_all (\<lambda>e. \<not> is_publish_call e) (run_trace (ppsmonitor_loop tioc c l es))"
  using assms
proof (induction es arbitrary: c)
  case Nil
  show ?case by simp
next
  case (Cons i es)
  have rest: "list_all no_fix_yet es" using Cons.prems(2) by simp
  have fix0: "tv_sec (fixin_real c) = 0" by (rule Cons.prems(1))
  show ?case
  proof (cases i)
    case (Stash_fixtime r k e1 e2)
    with Cons.prems(2) have "tv_sec r = 0" by simp
    then have "tv_sec (fixin_real (c\<lparr>fixin_real := r, fixin_clock := k\<rparr>)) = 0" by simp
    from Cons.IH [OF this rest] Stash_fixtime show ?thesis
      by (simp add: pps_thread_stash_fixtime_def is_log_not_publish mutex_log_is_log)
  next
    case Deactivate
    have "tv_sec (fixin_real (pps_thread_deactivate c)) = 0"
      using fix0 by (simp add: pps_thread_deactivate_def)
    from Cons.IH [OF this rest] Deactivate show ?thesis
      by (simp add: pps_thread_deactivate_def)
  next
    case (Edge w)
    show ?thesis
    proof (cases "wait_for_edge w")
      case (Inl a)
      obtain oc ev where a: "a = (oc, ev)" by (cases a)
      with Inl have br: "is_break oc" by (auto dest: wait_for_edge_break)
      moreover have "list_all is_log ev" using wait_for_edge_logs [of w] Inl a by simp
      moreover have "publications [oc] = []" using br by (auto simp: is_break_def)
      ultimately show ?thesis using Edge Inl a
        by (simp add: loop_body_no_fix [OF fix0] is_log_not_publish exit_no_publish)
    next
      case (Inr ev)
      have "list_all is_log ev" using wait_for_edge_logs [of w] Inr by simp
      with Cons.IH [OF fix0 rest] Edge Inr show ?thesis
        by (simp add: loop_body_no_fix [OF fix0] is_log_not_publish exit_no_publish
              is_break_def)
    qed
  qed
qed

lemma monitor_no_fix:
  assumes "tv_sec (fixin_real c) = 0" and "list_all no_fix_yet es"
  shows "publications (run_outcomes (gpsd_ppsmonitor tioc c es)) = [] \<and>
         ppsout_count (run_ctx (gpsd_ppsmonitor tioc c es)) = ppsout_count c \<and>
         ppsout_last (run_ctx (gpsd_ppsmonitor tioc c es)) = ppsout_last c \<and>
         run_locals (gpsd_ppsmonitor tioc c es) = locals_init \<and>
         list_all (\<lambda>e. \<not> is_publish_call e) (run_trace (gpsd_ppsmonitor tioc c es))"
  using loop_no_fix [OF assms, of tioc locals_init]
  by (simp add: gpsd_ppsmonitor_def exit_no_publish)

text \<open>
  C8, as amended. At a wakeup at which the copied fix has \<^verbatim>\<open>tv_sec == 0\<close> the
  iteration ends at line 444, before the edge is computed: the classifier is not reached,
  the report, publish and wrap hooks are not called, and the context (\<^verbatim>\<open>ppsout_last\<close>,
  \<^verbatim>\<open>ppsout_count\<close>) and all the worker's variables (\<^verbatim>\<open>pulse\<close>, \<^verbatim>\<open>state_last\<close>) are
  as before. The log hook is called: the calls of the iteration are exactly those the
  time critical section has made before the test, the progress message of line 431 and
  the diagnostics of a call that failed. Hence a thread started with no fix in the context
  publishes nothing and calls neither the report nor the publish hook as long as every fix
  stashed has the second zero.
\<close>

theorem no_fix_no_publication:
  assumes "tv_sec (fixin_real c) = 0"
  shows "new_ctx (loop_body tioc c l w) = c \<and>
         new_locals (loop_body tioc c l w) = l \<and>
         list_all is_log (events (loop_body tioc c l w)) \<and>
         (wait_for_edge w = Inr ev0 \<longrightarrow> loop_body tioc c l w = (c, l, ev0, No_fix)) \<and>
         (outcome (loop_body tioc c l w) = No_fix \<or>
          is_break (outcome (loop_body tioc c l w))) \<and>
         (list_all no_fix_yet es \<longrightarrow>
            publications (run_outcomes (gpsd_ppsmonitor tioc c es)) = [] \<and>
            ppsout_count (run_ctx (gpsd_ppsmonitor tioc c es)) = ppsout_count c \<and>
            ppsout_last (run_ctx (gpsd_ppsmonitor tioc c es)) = ppsout_last c \<and>
            run_locals (gpsd_ppsmonitor tioc c es) = locals_init \<and>
            list_all (\<lambda>e. \<not> is_publish_call e) (run_trace (gpsd_ppsmonitor tioc c es)))"
proof -
  have "outcome (loop_body tioc c l w) = No_fix \<or> is_break (outcome (loop_body tioc c l w))"
  proof (cases "wait_for_edge w")
    case (Inl a)
    then show ?thesis
      using wait_for_edge_break [of w "fst a" "snd a"]
      by (simp add: loop_body_no_fix [OF assms] outcome_def split_beta)
  next
    case (Inr ev)
    then show ?thesis by (simp add: loop_body_no_fix [OF assms] outcome_def)
  qed
  then show ?thesis
    using wait_for_edge_logs [of w] monitor_no_fix [OF assms, of es tioc]
    by (simp add: loop_body_no_fix [OF assms] step_parts)
qed

text \<open>
  C8, a run of the theorem: pulses arrive while the receiver reports the time zero; the
  first wakeup only logs its progress message, and the run publishes nothing.
\<close>

theorem no_fix_no_publication_witness:
  "tv_sec (fixin_real idle_context) = 0 \<and>
   loop_body linux_tioc idle_context locals_init (edge_at (at_time 1000 500000000) 64) =
     (idle_context, locals_init,
      [Log_hook THREAD_PROG ''PPS ioctl(TIOCMIWAIT) on %s succeeded''], No_fix) \<and>
   list_all no_fix_yet no_fix_script \<and>
   publications (run_outcomes (gpsd_ppsmonitor linux_tioc idle_context no_fix_script)) = [] \<and>
   ppsout_count (run_ctx (gpsd_ppsmonitor linux_tioc idle_context no_fix_script)) = 0 \<and>
   run_locals (gpsd_ppsmonitor linux_tioc idle_context no_fix_script) = locals_init"
proof -
  have a: "tv_sec (fixin_real idle_context) = 0"
    by (simp add: idle_context_def at_time_def)
  have b: "wait_for_edge (edge_at (at_time 1000 500000000) 64) =
             Inr [Log_hook THREAD_PROG ''PPS ioctl(TIOCMIWAIT) on %s succeeded'']"
    by (simp add: wait_for_edge_def edge_at_def mutex_log_def)
  have c: "list_all no_fix_yet no_fix_script"
    by (simp add: no_fix_script_def at_time_def)
  have d: "ppsout_count idle_context = 0"
    by (simp add: idle_context_def)
  from no_fix_no_publication
         [OF a, where w = "edge_at (at_time 1000 500000000) 64" and tioc = linux_tioc
            and l = locals_init and es = no_fix_script
            and ?ev0.0 = "[Log_hook THREAD_PROG ''PPS ioctl(TIOCMIWAIT) on %s succeeded'']"]
  show ?thesis using a b c d by simp
qed

text \<open>
  C8 as stated fails where it says that no hook is invoked: at a wakeup without a fix at
  which every call succeeds, the log hook has been called once, at line 431, when the
  iteration ends.
\<close>

theorem no_fix_log_hook_counterexample:
  "tv_sec (fixin_real idle_context) = 0 \<and>
   outcome (loop_body linux_tioc idle_context locals_init
              (edge_at (at_time 1000 500000000) 64)) = No_fix \<and>
   events (loop_body linux_tioc idle_context locals_init
             (edge_at (at_time 1000 500000000) 64)) =
     [Log_hook THREAD_PROG ''PPS ioctl(TIOCMIWAIT) on %s succeeded''] \<and>
   events (loop_body linux_tioc idle_context locals_init
             (edge_at (at_time 1000 500000000) 64)) \<noteq> []"
  by (simp add: loop_body_def wait_for_edge_def handle_edge_def edge_at_def mutex_log_def
        idle_context_def at_time_def step_parts)

subsection \<open>Wakeups that leave the lines unchanged\<close>

lemma check_unchanged_range:
  "0 \<le> u \<Longrightarrow> 0 \<le> fst (snd (check_unchanged s sl cy d u))"
  by (simp add: check_unchanged_def)

lemma check_unchanged_calls:
  "list_all (\<lambda>e. \<not> is_publish_call e) (snd (snd (check_unchanged s sl cy d u)))"
  by (simp add: check_unchanged_def)

lemma kpps_fetch_calls:
  "list_all (\<lambda>e. \<not> is_publish_call e) (snd (snd (snd (kpps_fetch c l w))))"
  by (simp add: kpps_fetch_def Let_def split_beta)

lemma accept_edge_locals:
  "unchanged (new_locals (accept_edge c l w k)) = unchanged l \<and>
   state_last (new_locals (accept_edge c l w k)) = state_last l \<and>
   pulse (new_locals (accept_edge c l w k)) = pulse l"
  by (simp add: accept_edge_def new_locals_def Let_def split: delay_verdict.splits)

text \<open>
  Whatever becomes of the edge, an iteration that has a fix records the modem lines and the
  time of the edge.
\<close>

lemma handle_edge_locals:
  assumes "tv_sec (fixin_real c) \<noteq> 0"
  shows "unchanged (new_locals (handle_edge tioc c l w ev0)) =
           fst (snd (check_unchanged (pps_state tioc w) (state_last l) (pps_cycle tioc l w)
                       (pps_duration tioc l w) (unchanged l))) \<and>
         state_last (new_locals (handle_edge tioc c l w ev0)) = pps_state tioc w \<and>
         pulse (new_locals (handle_edge tioc c l w ev0)) =
           (pulse l)[nat (pps_edge tioc l w) := gettime_ts w]"
  using assms accept_edge_locals
  by (simp add: handle_edge_def Let_def split_beta new_locals_def)

lemma handle_edge_strange:
  assumes "tv_sec (fixin_real c) \<noteq> 0"
    and "fst (snd (check_unchanged (pps_state tioc w) (state_last l) (pps_cycle tioc l w)
                     (pps_duration tioc l w) (unchanged l))) \<noteq> 0"
  shows "outcome (handle_edge tioc c l w ev0) = Strange \<and>
         new_ctx (handle_edge tioc c l w ev0) = c \<and>
         last_second_used (new_locals (handle_edge tioc c l w ev0)) = last_second_used l \<and>
         events (handle_edge tioc c l w ev0) =
           ev0 @ snd (snd (snd (kpps_fetch c l w))) @
           snd (snd (check_unchanged (pps_state tioc w) (state_last l) (pps_cycle tioc l w)
                       (pps_duration tioc l w) (unchanged l))) @
           [Log_hook THREAD_PROG ''PPS edge: %d, cycle: %7d uSec, duration: %7d uSec @ %s'']"
  using assms
  by (simp add: handle_edge_def Let_def split_beta step_parts)

lemma handle_edge_unchanged:
  assumes "0 \<le> unchanged l"
  shows "0 \<le> unchanged (new_locals (handle_edge tioc c l w ev0))"
proof (cases "tv_sec (fixin_real c) = 0")
  case True
  then show ?thesis using assms by (simp add: handle_edge_def new_locals_def)
next
  case False
  then show ?thesis
    using assms handle_edge_locals [OF False, of tioc l w ev0] check_unchanged_range
    by simp
qed

lemma loop_body_unchanged:
  assumes "0 \<le> unchanged l"
  shows "0 \<le> unchanged (new_locals (loop_body tioc c l w))"
proof (cases "wait_for_edge w")
  case (Inl a)
  then show ?thesis using assms by (cases a) (simp add: loop_body_def new_locals_def)
next
  case (Inr ev0)
  then show ?thesis using handle_edge_unchanged [OF assms] by (simp add: loop_body_def)
qed

text \<open>The counter \<^verbatim>\<open>unchanged\<close> never goes below zero.\<close>

lemma loop_unchanged:
  assumes "0 \<le> unchanged l"
  shows "0 \<le> unchanged (run_locals (ppsmonitor_loop tioc c l es))"
  using assms
proof (induction es arbitrary: c l)
  case Nil
  then show ?case by simp
next
  case (Cons i es)
  show ?case
  proof (cases i)
    case (Stash_fixtime r k e1 e2)
    then show ?thesis using Cons by (simp add: pps_thread_stash_fixtime_def)
  next
    case Deactivate
    then show ?thesis using Cons by simp
  next
    case (Edge w)
    obtain c' l' ev oc where r: "loop_body tioc c l w = (c', l', ev, oc)"
      by (cases "loop_body tioc c l w") auto
    with loop_body_unchanged [OF Cons.prems, of tioc c w] have "0 \<le> unchanged l'"
      by (simp add: new_locals_def)
    with Cons.IH [of l' c'] Edge r show ?thesis by simp
  qed
qed

lemma monitor_unchanged: "0 \<le> unchanged (run_locals (gpsd_ppsmonitor tioc c es))"
  using loop_unchanged [of locals_init tioc c es]
  by (simp add: gpsd_ppsmonitor_def locals_init_def)

lemma wait_for_edge_calls:
  "wait_for_edge w = Inr ev0 \<Longrightarrow> list_all (\<lambda>e. \<not> is_publish_call e) ev0"
  using wait_for_edge_logs [of w] by (simp add: is_log_not_publish)

text \<open>
  C9. Let the worker's variables be those of any run of the thread, so that
  \<^verbatim>\<open>unchanged\<close> has any value it can take. A wakeup with a fix at which the masked modem
  lines equal \<^verbatim>\<open>state_last\<close> and the cycle is not inside (999000, 1001000) us ends at
  line 573 whatever the counter is: nothing is accepted or published, the context
  (\<^verbatim>\<open>ppsout_count\<close>, \<^verbatim>\<open>ppsout_last\<close>) is as before and neither the report nor the
  publish hook is called; the counter goes up by one, to 1 where that would be 10; and
  \<^verbatim>\<open>state_last\<close> and \<^verbatim>\<open>pulse[edge]\<close> are set from the wakeup.
\<close>

theorem strange_wakeup_skipped:
  assumes "l = run_locals (gpsd_ppsmonitor tioc c0 es)"
    and "wait_for_edge w = Inr ev0"
    and "tv_sec (fixin_real c) \<noteq> 0"
    and "pps_state tioc w = state_last l"
    and "\<not> (999000 < pps_cycle tioc l w \<and> pps_cycle tioc l w < 1001000)"
  shows "outcome (loop_body tioc c l w) = Strange \<and>
         new_ctx (loop_body tioc c l w) = c \<and>
         last_second_used (new_locals (loop_body tioc c l w)) = last_second_used l \<and>
         unchanged (new_locals (loop_body tioc c l w)) =
           (if unchanged l + 1 = 10 then 1 else unchanged l + 1) \<and>
         state_last (new_locals (loop_body tioc c l w)) = pps_state tioc w \<and>
         pulse (new_locals (loop_body tioc c l w)) =
           (pulse l)[nat (pps_edge tioc l w) := gettime_ts w] \<and>
         list_all (\<lambda>e. \<not> is_publish_call e) (events (loop_body tioc c l w))"
proof -
  let ?cu = "check_unchanged (pps_state tioc w) (state_last l) (pps_cycle tioc l w)
               (pps_duration tioc l w) (unchanged l)"
  have range: "0 \<le> unchanged l" using assms(1) monitor_unchanged by simp
  have body: "loop_body tioc c l w = handle_edge tioc c l w ev0"
    using assms(2) by (simp add: loop_body_def)
  have unch: "fst (snd ?cu) = (if unchanged l + 1 = 10 then 1 else unchanged l + 1)"
    using assms(4,5) by (auto simp: check_unchanged_def)
  with range have nz: "fst (snd ?cu) \<noteq> 0" by auto
  from handle_edge_strange [OF assms(3) nz, of ev0]
    handle_edge_locals [OF assms(3), of tioc l w ev0]
    unch wait_for_edge_calls [OF assms(2)] kpps_fetch_calls [of c l w]
    check_unchanged_calls [of "pps_state tioc w" "state_last l" "pps_cycle tioc l w"
      "pps_duration tioc l w" "unchanged l"]
  show ?thesis by (simp add: body)
qed

text \<open>
  C9, a run of the theorem: after three such wakeups the counter is 3; a fourth, 0.4 s
  after the third, is skipped as well, makes the counter 4 and records its time in
  \<^verbatim>\<open>pulse[0]\<close>.
\<close>

theorem strange_wakeup_skipped_witness:
  "run_locals (gpsd_ppsmonitor linux_tioc idle_context stuck_script) =
     locals_init\<lparr>unchanged := 3,
                 pulse := [\<lparr>tv_sec = 1000, tv_nsec = 900000000\<rparr>,
                           \<lparr>tv_sec = 0, tv_nsec = 0\<rparr>]\<rparr> \<and>
   pps_state linux_tioc (edge_at (at_time 1001 300000000) 0) = 0 \<and>
   pps_cycle linux_tioc (run_locals (gpsd_ppsmonitor linux_tioc idle_context stuck_script))
     (edge_at (at_time 1001 300000000) 0) = 400000 \<and>
   outcome (loop_body linux_tioc fixed_context
              (run_locals (gpsd_ppsmonitor linux_tioc idle_context stuck_script))
              (edge_at (at_time 1001 300000000) 0)) = Strange \<and>
   unchanged (new_locals (loop_body linux_tioc fixed_context
              (run_locals (gpsd_ppsmonitor linux_tioc idle_context stuck_script))
              (edge_at (at_time 1001 300000000) 0))) = 4 \<and>
   pulse (new_locals (loop_body linux_tioc fixed_context
              (run_locals (gpsd_ppsmonitor linux_tioc idle_context stuck_script))
              (edge_at (at_time 1001 300000000) 0))) =
     [\<lparr>tv_sec = 1001, tv_nsec = 300000000\<rparr>, \<lparr>tv_sec = 0, tv_nsec = 0\<rparr>]"
proof -
  let ?w = "edge_at (at_time 1001 300000000) 0"
  let ?l = "run_locals (gpsd_ppsmonitor linux_tioc idle_context stuck_script)"
  have l: "?l = locals_init\<lparr>unchanged := 3,
                 pulse := [\<lparr>tv_sec = 1000, tv_nsec = 900000000\<rparr>,
                           \<lparr>tv_sec = 0, tv_nsec = 0\<rparr>]\<rparr>"
    by (simp add: run_defs stuck_script_def)
  have a: "wait_for_edge ?w =
             Inr [Log_hook THREAD_PROG ''PPS ioctl(TIOCMIWAIT) on %s succeeded'']"
    by (simp add: wait_for_edge_def edge_at_def mutex_log_def)
  have b: "tv_sec (fixin_real fixed_context) \<noteq> 0"
    by (simp add: fixed_context_def at_time_def)
  have s: "pps_state linux_tioc ?w = 0"
    by (simp add: pps_state_def edge_at_def linux_tioc_def)
  have c: "pps_state linux_tioc ?w = state_last ?l"
    unfolding l by (simp add: s locals_init_def)
  have cy: "pps_cycle linux_tioc ?l ?w = 400000"
    unfolding l
    by (simp add: pps_state_def linux_tioc_def pps_cycle_def pps_edge_def locals_init_def
          edge_at_def at_time_def diff_usec_def timespec_diff_ns_def c_div_def to_int_def)
  then have d: "\<not> (999000 < pps_cycle linux_tioc ?l ?w \<and> pps_cycle linux_tioc ?l ?w < 1001000)"
    by simp
  have e: "pps_edge linux_tioc ?l ?w = 0"
    unfolding l by (simp add: s pps_edge_def locals_init_def)
  have t: "gettime_ts ?w = \<lparr>tv_sec = 1001, tv_nsec = 300000000\<rparr>"
    by (simp add: edge_at_def at_time_def)
  have u: "unchanged ?l = 3"
    and p: "pulse ?l = [\<lparr>tv_sec = 1000, tv_nsec = 900000000\<rparr>, \<lparr>tv_sec = 0, tv_nsec = 0\<rparr>]"
    unfolding l by (simp_all add: locals_init_def)
  from strange_wakeup_skipped [OF refl a b c d] show ?thesis
    by (simp add: l [symmetric] s cy e t u p)
qed

subsection \<open>Kernel PPS needs root\<close>

lemma find_pps_num_logs: "list_all is_log (snd (find_pps_num n name files))"
  by (induction files) (auto simp: Let_def split: prod.splits)

lemma is_log_not_device:
  "list_all is_log evs \<Longrightarrow> list_all (\<lambda>e. \<not> uses_pps_device e) evs"
proof (induction evs)
  case Nil
  show ?case by simp
next
  case (Cons e evs)
  then show ?case by (cases e) auto
qed

lemma pps_device_path_calls:
  "pps_device_path env c = Inl ev \<Longrightarrow> list_all (\<lambda>e. \<not> uses_pps_device e) ev"
  "pps_device_path env c = Inr (path, ev) \<Longrightarrow> list_all (\<lambda>e. \<not> uses_pps_device e) ev"
proof -
  have logs: "list_all (\<lambda>e. \<not> uses_pps_device e)
                (snd (find_pps_num (path_max env) (devicename c) (sysfs_pps env)))"
    using find_pps_num_logs [of "path_max env" "devicename c" "sysfs_pps env"]
    by (rule is_log_not_device)
  show "pps_device_path env c = Inl ev \<Longrightarrow> list_all (\<lambda>e. \<not> uses_pps_device e) ev"
    using logs by (auto simp: pps_device_path_def split: if_splits prod.splits)
  show "pps_device_path env c = Inr (path, ev) \<Longrightarrow> list_all (\<lambda>e. \<not> uses_pps_device e) ev"
    using logs by (auto simp: pps_device_path_def split: if_splits prod.splits)
qed

text \<open>
  C10. On Linux \<^verbatim>\<open>init_kernel_pps\<close> returns -1 and leaves the handle at -1 whenever
  \<^verbatim>\<open>getuid()\<close> is not 0, whatever the device name: the PPS device is not opened and no
  RFC 2783 call is made. With a device name that begins with \<^verbatim>\<open>/dev/pps\<close>, where no
  line discipline has to be attached, the only thing done on a tty is to log that KPPS
  only works as root.
\<close>

theorem init_kernel_pps_needs_root:
  assumes "uid env \<noteq> 0"
  shows "fst (init_kernel_pps True env c) = - 1 \<and>
         kernelpps_handle (fst (snd (init_kernel_pps True env c))) = - 1 \<and>
         list_all (\<lambda>e. \<not> uses_pps_device e) (snd (snd (init_kernel_pps True env c))) \<and>
         (isatty_rc env \<noteq> 0 \<and> take 8 (devicename c) = ''/dev/pps'' \<longrightarrow>
            init_kernel_pps True env c =
              (- 1, c\<lparr>kernelpps_handle := - 1\<rparr>,
               [Log_hook THREAD_INF ''KPPS only works as root '']))"
proof -
  let ?c = "c\<lparr>kernelpps_handle := - 1\<rparr>"
  have fd: "\<exists>ev. rfc2783_fd True env ?c = Inl ev \<and> list_all (\<lambda>e. \<not> uses_pps_device e) ev"
  proof (cases "pps_device_path env ?c")
    case (Inl ev)
    then show ?thesis using pps_device_path_calls(1) [OF Inl]
      by (simp add: rfc2783_fd_def)
  next
    case (Inr a)
    obtain path ev where a: "a = (path, ev)" by (cases a)
    with Inr pps_device_path_calls(2) [of env ?c path ev] assms show ?thesis
      by (simp add: rfc2783_fd_def)
  qed
  have explicit: "take 8 (devicename c) = ''/dev/pps'' \<Longrightarrow>
      rfc2783_fd True env ?c = Inl [Log_hook THREAD_INF ''KPPS only works as root '']"
    using assms by (simp add: rfc2783_fd_def pps_device_path_def)
  from fd explicit show ?thesis
    by (auto simp: init_kernel_pps_def Let_def)
qed

text \<open>
  C10, a run of the theorem: for the user 1000 the device \<^verbatim>\<open>/dev/pps0\<close> is not opened,
  although every call would succeed; for root the same system gives the handle 5.
\<close>

theorem init_kernel_pps_needs_root_witness:
  "uid user_env \<noteq> 0 \<and> isatty_rc user_env \<noteq> 0 \<and>
   take 8 (devicename pps0_context) = ''/dev/pps'' \<and>
   init_kernel_pps True user_env pps0_context =
     (- 1, pps0_context\<lparr>kernelpps_handle := - 1\<rparr>,
      [Log_hook THREAD_INF ''KPPS only works as root '']) \<and>
   fst (init_kernel_pps True (user_env\<lparr>uid := 0\<rparr>) pps0_context) = 0 \<and>
   kernelpps_handle (fst (snd (init_kernel_pps True (user_env\<lparr>uid := 0\<rparr>) pps0_context))) = 5"
proof -
  have a: "uid user_env \<noteq> 0" and b: "isatty_rc user_env \<noteq> 0"
    by (simp_all add: user_env_def)
  have c: "take 8 (devicename pps0_context) = ''/dev/pps''"
    by (simp add: pps0_context_def idle_context_def)
  have d: "fst (init_kernel_pps True (user_env\<lparr>uid := 0\<rparr>) pps0_context) = 0 \<and>
    kernelpps_handle (fst (snd (init_kernel_pps True (user_env\<lparr>uid := 0\<rparr>) pps0_context))) = 5"
    by (simp add: init_kernel_pps_def rfc2783_fd_def pps_device_path_def user_env_def
          pps0_context_def idle_context_def Let_def)
  from init_kernel_pps_needs_root [OF a, of pps0_context] a b c d show ?thesis by simp
qed

end
